theory Spec2Isabelle
  imports Main
begin

section \<open>Time and slot utilities\<close>

text \<open>
  A Python \<open>datetime\<close> is modelled by its local wall-clock reading, counted in
  microseconds from 0001-01-01T00:00:00 (the day of ordinal 1, a Monday), together with
  the UTC offset (in microseconds) of the \<open>tzinfo\<close> it carries. The calendar fields
  are read off the count; \<open>dt_day\<close> is \<open>toordinal() - 1\<close>. Arithmetic with a
  \<open>timedelta\<close> and \<open>replace\<close> act on the wall clock and keep the \<open>tzinfo\<close>,
  as they do for a pytz-localised value. The timeline is unbounded: the limits
  \<open>datetime.min\<close> and \<open>datetime.max\<close> are not part of the model.
\<close>

record datetime =
  wall :: int
  utcoffset :: int

definition dt_microsecond :: "datetime \<Rightarrow> int" where
  "dt_microsecond dt = wall dt mod 1000000"

definition dt_second :: "datetime \<Rightarrow> int" where
  "dt_second dt = (wall dt div 1000000) mod 60"

definition dt_minute :: "datetime \<Rightarrow> int" where
  "dt_minute dt = (wall dt div 60000000) mod 60"

definition dt_hour :: "datetime \<Rightarrow> int" where
  "dt_hour dt = (wall dt div 3600000000) mod 24"

definition dt_day :: "datetime \<Rightarrow> int" where
  "dt_day dt = wall dt div 86400000000"

definition weekday :: "datetime \<Rightarrow> int" where
  "weekday dt = dt_day dt mod 7"

definition from_fields :: "int \<Rightarrow> int \<Rightarrow> int \<Rightarrow> int \<Rightarrow> int \<Rightarrow> int" where
  "from_fields d h m s u = (((d * 24 + h) * 60 + m) * 60 + s) * 1000000 + u"

text \<open>\<open>dt.replace(hour=h, minute=m, second=s, microsecond=u)\<close>: the date is kept.\<close>

definition replace_hmsu :: "datetime \<Rightarrow> int \<Rightarrow> int \<Rightarrow> int \<Rightarrow> int \<Rightarrow> datetime" where
  "replace_hmsu dt h m s u = dt\<lparr>wall := from_fields (dt_day dt) h m s u\<rparr>"

text \<open>\<open>dt.replace(minute=m, second=s, microsecond=u)\<close>: the date and the hour are kept.\<close>

definition replace_msu :: "datetime \<Rightarrow> int \<Rightarrow> int \<Rightarrow> int \<Rightarrow> datetime" where
  "replace_msu dt m s u = dt\<lparr>wall := from_fields (dt_day dt) (dt_hour dt) m s u\<rparr>"

text \<open>A \<open>timedelta\<close> is its length in microseconds.\<close>

definition minutes :: "int \<Rightarrow> int" where
  "minutes n = n * 60000000"

definition hours :: "int \<Rightarrow> int" where
  "hours n = n * 3600000000"

definition days :: "int \<Rightarrow> int" where
  "days n = n * 86400000000"

definition add_timedelta :: "datetime \<Rightarrow> int \<Rightarrow> datetime" where
  "add_timedelta dt td = dt\<lparr>wall := wall dt + td\<rparr>"

text \<open>
  Aware datetimes compare by the instant they denote. With one and the same
  \<open>tzinfo\<close> on both sides this is the comparison of the wall-clock readings.
\<close>

definition utc :: "datetime \<Rightarrow> int" where
  "utc dt = wall dt - utcoffset dt"

definition dt_le :: "datetime \<Rightarrow> datetime \<Rightarrow> bool" where
  "dt_le a b = (utc a \<le> utc b)"

definition dt_lt :: "datetime \<Rightarrow> datetime \<Rightarrow> bool" where
  "dt_lt a b = (utc a < utc b)"

text \<open>Python's \<open>max(a, b)\<close> keeps \<open>a\<close> unless \<open>b > a\<close>.\<close>

definition dt_max :: "datetime \<Rightarrow> datetime \<Rightarrow> datetime" where
  "dt_max a b = (if dt_lt a b then b else a)"

definition is_business_hours :: "datetime \<Rightarrow> bool" where
  "is_business_hours dt =
     (if weekday dt \<ge> 5 then False
      else if dt_hour dt < 9 \<or> dt_hour dt \<ge> 18 then False
      else if \<not> (dt_minute dt = 0 \<or> dt_minute dt = 30) then False
      else True)"

definition round_to_next_half_hour :: "datetime \<Rightarrow> datetime" where
  "round_to_next_half_hour dt =
     (if (dt_minute dt = 0 \<or> dt_minute dt = 30) \<and> dt_second dt = 0 \<and> dt_microsecond dt = 0
      then dt
      else if dt_minute dt < 15 then replace_msu dt 0 0 0
      else if dt_minute dt < 45 then replace_msu dt 30 0 0
      else replace_msu (add_timedelta dt (hours 1)) 0 0 0)"


section \<open>Strings and values at the boundary\<close>

text \<open>
  The exceptions that the modelled code can raise: a failed call of the calendar or
  sheets API, a text the fuzzy date parser rejects, a string that is not ISO-8601, and
  an index into an empty list.
\<close>

datatype exn = HttpError | ParserError | ValueError | IndexError

text \<open>
  An ISO-8601 string is modelled by what \<open>du.isoparse\<close> makes of it: the instant
  it denotes, or \<open>Malformed\<close> with the text when \<open>isoparse\<close> raises.
  \<open>isoformat\<close> produces the string of an instant.
\<close>

datatype iso_str = Iso datetime | Malformed string

fun isoparse :: "iso_str \<Rightarrow> exn + datetime" where
  "isoparse (Iso d) = Inr d"
| "isoparse (Malformed s) = Inl ValueError"

definition isoformat :: "datetime \<Rightarrow> iso_str" where
  "isoformat d = Iso d"

text \<open>Truthiness of an optional string: \<open>None\<close> and the empty string are falsy.\<close>

fun truthy :: "string option \<Rightarrow> bool" where
  "truthy None = False"
| "truthy (Some s) = (s \<noteq> [])"

text \<open>\<open>x or default\<close> on an optional string.\<close>

fun or_default :: "string option \<Rightarrow> string \<Rightarrow> string" where
  "or_default None d = d"
| "or_default (Some s) d = (if s = [] then d else s)"

text \<open>\<open>str.upper()\<close> and \<open>str.lower()\<close>, on ASCII letters.\<close>

definition upper_char :: "char \<Rightarrow> char" where
  "upper_char c =
     (case map_of (zip ''abcdefghijklmnopqrstuvwxyz'' ''ABCDEFGHIJKLMNOPQRSTUVWXYZ'') c of
        Some u \<Rightarrow> u
      | None \<Rightarrow> c)"

definition lower_char :: "char \<Rightarrow> char" where
  "lower_char c =
     (case map_of (zip ''ABCDEFGHIJKLMNOPQRSTUVWXYZ'' ''abcdefghijklmnopqrstuvwxyz'') c of
        Some l \<Rightarrow> l
      | None \<Rightarrow> c)"

definition upper :: "string \<Rightarrow> string" where
  "upper s = map upper_char s"

definition lower :: "string \<Rightarrow> string" where
  "lower s = map lower_char s"

text \<open>\<open>needle in hay\<close> on strings: \<open>needle\<close> occurs as a contiguous substring.\<close>

fun starts_with :: "string \<Rightarrow> string \<Rightarrow> bool" where
  "starts_with [] hay = True"
| "starts_with (c # cs) [] = False"
| "starts_with (c # cs) (h # hs) = (c = h \<and> starts_with cs hs)"

fun contains :: "string \<Rightarrow> string \<Rightarrow> bool" where
  "contains needle [] = (needle = [])"
| "contains needle (h # hs) = (starts_with needle (h # hs) \<or> contains needle hs)"

section \<open>Data model\<close>

record Slot =
  slot_start :: iso_str
  slot_end :: iso_str
  speakable :: string

record FindSlotsReq =
  fr_appointment_type :: string
  fr_preferred_datetime_text :: string
  fr_limit :: int

record FindSlotsRes =
  fs_slots :: "Slot list"
  fs_reason :: "string option"

record Patient =
  p_name :: string
  p_contact :: string
  p_email :: "string option"

record CreateEventReq =
  cr_appointment_type :: string
  cr_slot :: Slot
  cr_patient :: Patient
  cr_idempotency_key :: "string option"
  cr_notes :: "string option"

record CreateEventRes =
  ce_success :: bool
  ce_booking_ref :: "string option"
  ce_event_id :: "string option"
  ce_confirm_speakable :: "string option"
  ce_error :: "string option"
  ce_reason :: "string option"

record RescheduleReq =
  rr_booking_ref :: "string option"
  rr_name :: "string option"
  rr_contact :: "string option"
  rr_new_preferred_datetime_text :: string
  rr_appointment_type :: "string option"
  rr_confirm_reschedule :: bool
  rr_notes :: "string option"

record RescheduleRes =
  rs_success :: bool
  rs_booking_ref :: "string option"
  rs_old_slot :: "string option"
  rs_new_slot :: "Slot option"
  rs_available_slots :: "Slot list option"
  rs_confirm_speakable :: "string option"
  rs_error :: "string option"
  rs_reason :: "string option"

record CancelReq =
  cq_booking_ref :: "string option"
  cq_name :: "string option"
  cq_contact :: "string option"
  cq_reason :: "string option"

record CancelRes =
  cn_success :: bool
  cn_booking_ref :: "string option"
  cn_cancelled_slot :: "string option"
  cn_error :: "string option"
  cn_reason :: "string option"

section \<open>The calendar and the ledger\<close>

text \<open>
  A calendar event, with the fields the code reads and writes: \<open>ev_booking_ref\<close> is
  \<open>extendedProperties.private.bookingRef\<close>, absent on an event that carries no tag;
  \<open>ev_description\<close> is empty when the event has none.
\<close>

record event =
  ev_id :: string
  ev_summary :: string
  ev_description :: string
  ev_start :: iso_str
  ev_end :: iso_str
  ev_booking_ref :: "string option"

text \<open>
  The state outside the process: the events of the calendar and the rows of the sheet
  (\<open>Sheet1!A:K\<close>, row \<open>i\<close> of the list being sheet row \<open>i + 1\<close>).
\<close>

record world =
  events :: "event list"
  rows :: "string list list"

text \<open>
  The calls of the two Google APIs. \<open>ValuesUpdate i c\<close> writes cells of sheet row
  \<open>i + 1\<close> from column index \<open>c\<close> on.
\<close>

datatype api_call =
    FreeBusyQuery datetime datetime
  | EventsListByRef string
  | EventsListByQuery string
  | EventsInsert
  | EventsUpdate string
  | EventsDelete string
  | ValuesGet
  | ValuesAppend
  | ValuesUpdate nat nat

text \<open>
  What the code takes from its collaborators is a parameter of the model: the clock,
  the fuzzy date parser (with the localisation to the pharmacy's zone; \<open>None\<close> when
  \<open>du.parse\<close> raises), the text of an instant and the SHA-1 digest (for the booking
  reference), the two \<open>strftime\<close> renderings, the calendar's free/busy answer, its
  free-text event search, the id it gives a new event, which API calls fail, and the
  message \<open>str(e)\<close> of an exception.
\<close>

record env =
  now :: datetime
  logged_utc :: string
  parse_text :: "string \<Rightarrow> datetime option"
  isoformat_text :: "datetime \<Rightarrow> string"
  sha1_hexdigest :: "string \<Rightarrow> string"
  speakable_text :: "datetime \<Rightarrow> datetime \<Rightarrow> string"
  sheet_text :: "datetime \<Rightarrow> string"
  busy :: "event list \<Rightarrow> datetime \<Rightarrow> datetime \<Rightarrow> (datetime \<times> datetime) list"
  search :: "event list \<Rightarrow> string \<Rightarrow> event list"
  new_event_id :: "event list \<Rightarrow> string"
  fails :: "world \<Rightarrow> api_call \<Rightarrow> bool"
  exn_text :: "exn \<Rightarrow> string"

section \<open>Availability\<close>

definition freebusy_range :: "env \<Rightarrow> world \<Rightarrow> datetime \<Rightarrow> datetime \<Rightarrow> exn + (datetime \<times> datetime) list" where
  "freebusy_range env w start_dt end_dt =
     (if fails env w (FreeBusyQuery start_dt end_dt) then Inl HttpError
      else Inr (busy env (events w) start_dt end_dt))"

definition is_slot_available :: "env \<Rightarrow> world \<Rightarrow> datetime \<Rightarrow> exn + bool" where
  "is_slot_available env w start_dt =
     (if \<not> is_business_hours start_dt then Inr False
      else (case freebusy_range env w start_dt (add_timedelta start_dt (minutes 30)) of
              Inl e \<Rightarrow> Inl e
            | Inr b \<Rightarrow> Inr (length b = 0)))"

definition speakable_range :: "env \<Rightarrow> iso_str \<Rightarrow> iso_str \<Rightarrow> exn + string" where
  "speakable_range env start_iso end_iso =
     (case isoparse start_iso of
        Inl e \<Rightarrow> Inl e
      | Inr s \<Rightarrow> (case isoparse end_iso of
                    Inl e \<Rightarrow> Inl e
                  | Inr e \<Rightarrow> Inr (speakable_text env s e)))"

definition fmt_local :: "env \<Rightarrow> iso_str \<Rightarrow> exn + string" where
  "fmt_local env iso_s = (case isoparse iso_s of Inl e \<Rightarrow> Inl e | Inr d \<Rightarrow> Inr (sheet_text env d))"

section \<open>Booking identity\<close>

text \<open>The string that stands for a slot's start in the digest input.\<close>

fun iso_text :: "env \<Rightarrow> iso_str \<Rightarrow> string" where
  "iso_text env (Iso d) = isoformat_text env d"
| "iso_text env (Malformed s) = s"

definition booking_ref_key :: "env \<Rightarrow> string \<Rightarrow> string \<Rightarrow> iso_str \<Rightarrow> string \<Rightarrow> string" where
  "booking_ref_key env name contact start_iso appt_type =
     (let h = upper (take 6 (sha1_hexdigest env
                (name @ ''|'' @ contact @ ''|'' @ iso_text env start_iso @ ''|'' @ appt_type)))
      in take 3 h @ ''-'' @ drop 3 h)"

text \<open>
  \<open>events().list(privateExtendedProperty="bookingRef=...", maxResults=1)\<close>: the
  first event of the calendar that carries the tag, if any.
\<close>

definition events_with_ref :: "world \<Rightarrow> string \<Rightarrow> event list" where
  "events_with_ref w booking_ref = take 1 (filter (\<lambda>e. ev_booking_ref e = Some booking_ref) (events w))"

definition find_booking_by_ref :: "env \<Rightarrow> world \<Rightarrow> string \<Rightarrow> event option" where
  "find_booking_by_ref env w booking_ref =
     (if fails env w (EventsListByRef booking_ref) then None
      else (case events_with_ref w booking_ref of [] \<Rightarrow> None | e # _ \<Rightarrow> Some e))"

definition find_booking_by_patient :: "env \<Rightarrow> world \<Rightarrow> string \<Rightarrow> string \<Rightarrow> event option" where
  "find_booking_by_patient env w name contact =
     (if fails env w (EventsListByQuery name) then None
      else find (\<lambda>e. contains (lower contact) (lower (ev_description e))
                    \<and> contains (lower name) (lower (ev_summary e)))
             (search env (events w) name))"

section \<open>Ledger\<close>

text \<open>
  Writing the cells \<open>vals\<close> into a row from column index \<open>c\<close> on; a row shorter than
  \<open>c\<close> is padded with empty cells, as the sheet does.
\<close>

definition write_cells :: "string list \<Rightarrow> nat \<Rightarrow> string list \<Rightarrow> string list" where
  "write_cells row c vals =
     take c (row @ replicate (c - length row) []) @ vals @ drop (c + length vals) row"

definition values_update :: "world \<Rightarrow> nat \<Rightarrow> nat \<Rightarrow> string list \<Rightarrow> world" where
  "values_update w i c vals =
     (if i < length (rows w) then w\<lparr>rows := (rows w)[i := write_cells (rows w ! i) c vals]\<rparr>
      else w\<lparr>rows := rows w @ replicate (i - length (rows w)) [] @ [write_cells [] c vals]\<rparr>)"

definition append_sheet_row ::
  "env \<Rightarrow> world \<Rightarrow> string \<Rightarrow> string \<Rightarrow> iso_str \<Rightarrow> iso_str \<Rightarrow> string \<Rightarrow> string \<Rightarrow> string \<Rightarrow> string \<Rightarrow> exn + world" where
  "append_sheet_row env w status appt_type start_iso end_iso name contact booking_ref notes =
     (case fmt_local env start_iso of
        Inl e \<Rightarrow> Inl e
      | Inr start_local \<Rightarrow>
          (case fmt_local env end_iso of
             Inl e \<Rightarrow> Inl e
           | Inr end_local \<Rightarrow>
               (if fails env w ValuesAppend then Inl HttpError
                else Inr (w\<lparr>rows := rows w @
                       [[logged_utc env, booking_ref, ''book'', appt_type, start_local, end_local,
                         name, contact, ''retell-chat'', notes, status]]\<rparr>))))"

definition open_status :: "string \<Rightarrow> bool" where
  "open_status s = (s = ''confirmed'' \<or> s = ''rescheduled'')"

text \<open>
  The loop of \<open>update_sheet_status\<close> over the rows it fetched, \<open>i\<close> the index of the
  head of the list. The result is the returned flag and the state left behind; an
  exception inside is caught by the function's \<open>try\<close> and yields \<open>False\<close>.
\<close>

fun status_loop :: "env \<Rightarrow> world \<Rightarrow> string option \<Rightarrow> string \<Rightarrow> string \<Rightarrow> string list list \<Rightarrow> nat \<Rightarrow> bool \<times> world" where
  "status_loop env w booking_ref new_status notes [] i = (False, w)"
| "status_loop env w booking_ref new_status notes (row # rest) i =
     (if length row > 1 \<and> Some (row ! 1) = booking_ref then
        (if length row > 10 \<and> open_status (row ! 10) then
           (if fails env w (ValuesUpdate i 10) then (False, w)
            else (let w1 = values_update w i 10 [new_status] in
                  if notes \<noteq> [] then
                    (let existing_notes = (if length row > 9 then row ! 9 else []);
                         updated_notes = (if existing_notes \<noteq> []
                                          then existing_notes @ ''. Cancelled: '' @ notes
                                          else ''Cancelled: '' @ notes)
                     in if fails env w1 (ValuesUpdate i 9) then (False, w1)
                        else (True, values_update w1 i 9 [updated_notes]))
                  else (True, w1)))
         else status_loop env w booking_ref new_status notes rest (i + 1))
      else status_loop env w booking_ref new_status notes rest (i + 1))"

definition update_sheet_status :: "env \<Rightarrow> world \<Rightarrow> string option \<Rightarrow> string \<Rightarrow> string \<Rightarrow> bool \<times> world" where
  "update_sheet_status env w booking_ref new_status notes =
     (if fails env w ValuesGet then (False, w)
      else status_loop env w booking_ref new_status notes (rows w) 0)"

fun reschedule_loop :: "env \<Rightarrow> world \<Rightarrow> string option \<Rightarrow> iso_str \<Rightarrow> iso_str \<Rightarrow> string \<Rightarrow> string list list \<Rightarrow> nat \<Rightarrow> bool \<times> world" where
  "reschedule_loop env w booking_ref new_start_iso new_end_iso notes [] i = (False, w)"
| "reschedule_loop env w booking_ref new_start_iso new_end_iso notes (row # rest) i =
     (if length row > 1 \<and> Some (row ! 1) = booking_ref then
        (if length row > 10 \<and> open_status (row ! 10) then
           (case fmt_local env new_start_iso of
              Inl e \<Rightarrow> (False, w)
            | Inr start_local \<Rightarrow>
                (case fmt_local env new_end_iso of
                   Inl e \<Rightarrow> (False, w)
                 | Inr end_local \<Rightarrow>
                     (let existing_notes = (if length row > 9 then row ! 9 else []);
                          updated_notes = (if contains ''Rescheduled'' existing_notes
                                           then existing_notes @ ''. Rescheduled again: '' @ notes
                                           else ''Rescheduled. '' @ notes)
                      in if fails env w (ValuesUpdate i 4) then (False, w)
                         else (True, values_update w i 4
                                 [start_local, end_local, row ! 6, row ! 7, row ! 8,
                                  updated_notes, ''rescheduled'']))))
         else (False, w))
      else reschedule_loop env w booking_ref new_start_iso new_end_iso notes rest (i + 1))"

definition update_sheet_reschedule :: "env \<Rightarrow> world \<Rightarrow> string option \<Rightarrow> iso_str \<Rightarrow> iso_str \<Rightarrow> string \<Rightarrow> bool \<times> world" where
  "update_sheet_reschedule env w booking_ref new_start_iso new_end_iso notes =
     (if fails env w ValuesGet then (False, w)
      else reschedule_loop env w booking_ref new_start_iso new_end_iso notes (rows w) 0)"

section \<open>Slot finder\<close>

text \<open>
  The \<open>Slot\<close> built for a probe: its start, the end 30 minutes later, and the
  speakable range of the two.
\<close>

definition make_slot :: "env \<Rightarrow> datetime \<Rightarrow> exn + Slot" where
  "make_slot env probe =
     (let start_iso = isoformat probe;
          end_iso = isoformat (add_timedelta probe (minutes 30))
      in case speakable_range env start_iso end_iso of
           Inl e \<Rightarrow> Inl e
         | Inr sp \<Rightarrow> Inr \<lparr>slot_start = start_iso, slot_end = end_iso, speakable = sp\<rparr>)"

text \<open>
  The inner loop of \<open>top_slots\<close>: from \<open>probe\<close> in steps of 30 minutes while
  \<open>probe <= day_end\<close> and fewer than \<open>limit\<close> slots are collected. It returns the
  probe it stopped at and the slots.
\<close>

function day_loop :: "env \<Rightarrow> world \<Rightarrow> int \<Rightarrow> datetime \<Rightarrow> datetime \<Rightarrow> Slot list \<Rightarrow> exn + (datetime \<times> Slot list)" where
  "day_loop env w limit day_end probe out =
     (if dt_le probe day_end \<and> int (length out) < limit then
        (case is_slot_available env w probe of
           Inl e \<Rightarrow> Inl e
         | Inr a \<Rightarrow>
             (if a then
                (case make_slot env probe of
                   Inl e \<Rightarrow> Inl e
                 | Inr s \<Rightarrow> day_loop env w limit day_end (add_timedelta probe (minutes 30)) (out @ [s]))
              else day_loop env w limit day_end (add_timedelta probe (minutes 30)) out))
      else Inr (probe, out))"
  by pat_completeness auto
termination
  by (relation "measure (\<lambda>(env, w, limit, day_end, probe, out). nat (utc day_end - utc probe + 1))")
     (auto simp: dt_le_def utc_def add_timedelta_def minutes_def)

declare day_loop.simps [simp del]

text \<open>\<open>while probe.weekday() >= 5: probe += timedelta(days=1)\<close>\<close>

function skip_weekend :: "datetime \<Rightarrow> datetime" where
  "skip_weekend probe =
     (if weekday probe \<ge> 5 then skip_weekend (add_timedelta probe (days 1)) else probe)"
  by pat_completeness auto
termination
proof (relation "measure (\<lambda>p. if weekday p \<ge> 5 then nat (7 - weekday p) else 0)")
  show "wf (measure (\<lambda>p. if weekday p \<ge> 5 then nat (7 - weekday p) else 0))" by simp
next
  fix probe :: datetime
  assume a: "5 \<le> weekday probe"
  have d: "dt_day (add_timedelta probe (days 1)) = dt_day probe + 1"
    by (simp add: dt_day_def add_timedelta_def days_def)
  have r: "weekday probe < 7" by (simp add: weekday_def)
  have "weekday (add_timedelta probe (days 1)) = (weekday probe + 1) mod 7"
    unfolding weekday_def d by (simp add: mod_add_left_eq)
  moreover from a r have "weekday probe = 5 \<or> weekday probe = 6" by linarith
  ultimately have "weekday (add_timedelta probe (days 1)) = (if weekday probe = 5 then 6 else 0)"
    by auto
  with a r show "(add_timedelta probe (days 1), probe)
      \<in> measure (\<lambda>p. if weekday p \<ge> 5 then nat (7 - weekday p) else 0)"
    by auto
qed

declare skip_weekend.simps [simp del]

text \<open>
  The outer loop of \<open>top_slots\<close>: one candidate day per round, at most 8 rounds.
\<close>

function days_loop :: "env \<Rightarrow> world \<Rightarrow> int \<Rightarrow> datetime \<Rightarrow> nat \<Rightarrow> Slot list \<Rightarrow> exn + Slot list" where
  "days_loop env w limit probe days_checked out =
     (if int (length out) < limit \<and> days_checked < 8 then
        (case day_loop env w limit (replace_hmsu probe 18 0 0 0) probe out of
           Inl e \<Rightarrow> Inl e
         | Inr (probe', out') \<Rightarrow>
             days_loop env w limit
               (skip_weekend (replace_hmsu (add_timedelta probe' (days 1)) 9 0 0 0))
               (days_checked + 1) out')
      else Inr out)"
  by pat_completeness auto
termination
  by (relation "measure (\<lambda>(env, w, limit, probe, days_checked, out). 8 - days_checked)") auto

declare days_loop.simps [simp del]

definition top_slots :: "env \<Rightarrow> world \<Rightarrow> datetime \<Rightarrow> int \<Rightarrow> exn + Slot list" where
  "top_slots env w anchor limit =
     (let anchor' = dt_max anchor (add_timedelta (now env) (minutes 60));
          probe = round_to_next_half_hour anchor'
      in days_loop env w limit probe 0 [])"

definition find_available_slots :: "env \<Rightarrow> world \<Rightarrow> string \<Rightarrow> int \<Rightarrow> exn + FindSlotsRes" where
  "find_available_slots env w preferred_datetime_text limit =
     (case parse_text env preferred_datetime_text of
        None \<Rightarrow> Inl ParserError
      | Some anchor \<Rightarrow>
          (let rounded_anchor = round_to_next_half_hour anchor in
           case is_slot_available env w rounded_anchor of
             Inl e \<Rightarrow> Inl e
           | Inr a \<Rightarrow>
               (if a then
                  (case make_slot env rounded_anchor of
                     Inl e \<Rightarrow> Inl e
                   | Inr preferred_slot \<Rightarrow>
                       Inr \<lparr>fs_slots = [preferred_slot], fs_reason = Some ''preferred_time_available''\<rparr>)
                else
                  (case top_slots env w anchor limit of
                     Inl e \<Rightarrow> Inl e
                   | Inr slots \<Rightarrow>
                       Inr \<lparr>fs_slots = slots,
                            fs_reason = Some (if slots \<noteq> [] then ''preferred_time_busy''
                                              else ''no_slots_available'')\<rparr>))))"

section \<open>Request handlers\<close>

text \<open>
  A handler takes the outcome of validating the payload against its request model:
  \<open>Inl msg\<close> when pydantic raises \<open>ValidationError\<close> (\<open>msg\<close> its text), \<open>Inr req\<close>
  otherwise. It yields the response, or the exception that leaves the handler, and the
  state of calendar and ledger afterwards. Reading the JSON body, \<open>_pick_args\<close> and
  the decoding of a slot sent as a JSON string come before validation and are not part
  of the model.
\<close>

definition find_slots_endpoint :: "env \<Rightarrow> world \<Rightarrow> string + FindSlotsReq \<Rightarrow> exn + FindSlotsRes" where
  "find_slots_endpoint env w payload =
     (case payload of
        Inl msg \<Rightarrow>
          (let s = round_to_next_half_hour (add_timedelta (now env) (hours 2)) in
           case make_slot env s of
             Inl e \<Rightarrow> Inl e
           | Inr sample \<Rightarrow> Inr \<lparr>fs_slots = [sample], fs_reason = Some ''bad_payload''\<rparr>)
      | Inr req \<Rightarrow>
          (case find_available_slots env w (fr_preferred_datetime_text req) (fr_limit req) of
             Inl e \<Rightarrow> Inl e
           | Inr result \<Rightarrow> Inr \<lparr>fs_slots = fs_slots result, fs_reason = fs_reason result\<rparr>))"

definition create_failure :: "string \<Rightarrow> string \<Rightarrow> CreateEventRes" where
  "create_failure err why =
     \<lparr>ce_success = False, ce_booking_ref = None, ce_event_id = None,
      ce_confirm_speakable = None, ce_error = Some err, ce_reason = Some why\<rparr>"

definition create_success :: "string \<Rightarrow> string \<Rightarrow> string \<Rightarrow> CreateEventRes" where
  "create_success booking_ref event_id sp =
     \<lparr>ce_success = True, ce_booking_ref = Some booking_ref, ce_event_id = Some event_id,
      ce_confirm_speakable = Some sp, ce_error = None, ce_reason = None\<rparr>"

text \<open>
  \<open>create_event\<close> from the computation of the reference on, for the validated
  request (with its \<open>idempotency_key\<close> filled in).
\<close>

definition create_validated :: "env \<Rightarrow> world \<Rightarrow> CreateEventReq \<Rightarrow> (exn + CreateEventRes) \<times> world" where
  "create_validated env w req =
     (let slot = cr_slot req;
          booking_ref = booking_ref_key env (p_name (cr_patient req)) (p_contact (cr_patient req))
                          (slot_start slot) (cr_appointment_type req)
      in if fails env w (EventsListByRef booking_ref) then (Inl HttpError, w)
         else
           (case events_with_ref w booking_ref of
              ev # _ \<Rightarrow>
                (case speakable_range env (slot_start slot) (slot_end slot) of
                   Inl e \<Rightarrow> (Inl e, w)
                 | Inr sp \<Rightarrow> (Inr (create_success booking_ref (ev_id ev) sp), w))
            | [] \<Rightarrow>
                (case isoparse (slot_start slot) of
                   Inl e \<Rightarrow> (Inl e, w)
                 | Inr s_dt \<Rightarrow>
                     (case is_slot_available env w s_dt of
                        Inl e \<Rightarrow> (Inl e, w)
                      | Inr a \<Rightarrow>
                          (if \<not> a then
                             (Inr (create_failure ''slot_taken'' ''slot_no_longer_available''), w)
                           else if fails env w EventsInsert then (Inl HttpError, w)
                           else
                             (let created =
                                    \<lparr>ev_id = new_event_id env (events w),
                                     ev_summary = cr_appointment_type req @ '' - '' @ p_name (cr_patient req),
                                     ev_description = ''Contact: '' @ p_contact (cr_patient req)
                                                        @ [CHR 0x0A] @ ''Ref: '' @ booking_ref,
                                     ev_start = slot_start slot,
                                     ev_end = slot_end slot,
                                     ev_booking_ref = Some booking_ref\<rparr>;
                                  w1 = w\<lparr>events := events w @ [created]\<rparr>
                              in case append_sheet_row env w1 ''confirmed'' (cr_appointment_type req)
                                        (slot_start slot) (slot_end slot)
                                        (p_name (cr_patient req)) (p_contact (cr_patient req))
                                        booking_ref (or_default (cr_notes req) []) of
                                   Inl e \<Rightarrow> (Inl e, w1)
                                 | Inr w2 \<Rightarrow>
                                     (case speakable_range env (slot_start slot) (slot_end slot) of
                                        Inl e \<Rightarrow> (Inl e, w2)
                                      | Inr sp \<Rightarrow>
                                          (Inr (create_success booking_ref (ev_id created) sp), w2))))))))"

definition create_event :: "env \<Rightarrow> world \<Rightarrow> string + CreateEventReq \<Rightarrow> (exn + CreateEventRes) \<times> world" where
  "create_event env w payload =
     (case payload of
        Inl msg \<Rightarrow> (Inr (create_failure ''validation_error'' msg), w)
      | Inr req0 \<Rightarrow>
          (let req = (if \<not> truthy (cr_idempotency_key req0)
                      then req0\<lparr>cr_idempotency_key := Some (booking_ref_key env
                             (p_name (cr_patient req0)) (p_contact (cr_patient req0))
                             (slot_start (cr_slot req0)) (cr_appointment_type req0))\<rparr>
                      else req0)
           in create_validated env w req))"

text \<open>
  The lookup that opens reschedule and cancel: by reference when one is given, else by
  patient name and contact; the reference is then read from the event found.
\<close>

definition locate_booking :: "env \<Rightarrow> world \<Rightarrow> string option \<Rightarrow> string option \<Rightarrow> string option \<Rightarrow> event option \<times> string option" where
  "locate_booking env w req_ref req_name req_contact =
     (if truthy req_ref then (find_booking_by_ref env w (the req_ref), req_ref)
      else if truthy req_name \<and> truthy req_contact then
        (case find_booking_by_patient env w (the req_name) (the req_contact) of
           None \<Rightarrow> (None, None)
         | Some ev \<Rightarrow> (Some ev, ev_booking_ref ev))
      else (None, None))"

definition reschedule_failure :: "string \<Rightarrow> string \<Rightarrow> RescheduleRes" where
  "reschedule_failure err why =
     \<lparr>rs_success = False, rs_booking_ref = None, rs_old_slot = None, rs_new_slot = None,
      rs_available_slots = None, rs_confirm_speakable = None,
      rs_error = Some err, rs_reason = Some why\<rparr>"

text \<open>\<open>events().update\<close>: the event with the given id is replaced.\<close>

definition calendar_update :: "world \<Rightarrow> string \<Rightarrow> event \<Rightarrow> world" where
  "calendar_update w event_id body =
     w\<lparr>events := map (\<lambda>e. if ev_id e = event_id then body else e) (events w)\<rparr>"

text \<open>
  The event body sent to the calendar on a reschedule: summary and tag of the existing
  event, the new slot's times, and the notes appended to the description if given.
\<close>

definition updated_event :: "RescheduleReq \<Rightarrow> event \<Rightarrow> Slot \<Rightarrow> event" where
  "updated_event req existing_event new_slot =
     existing_event\<lparr>
       ev_description := (if truthy (rr_notes req)
                          then ev_description existing_event @ [CHR 0x0A] @ ''Rescheduled: ''
                                 @ the (rr_notes req)
                          else ev_description existing_event),
       ev_start := slot_start new_slot,
       ev_end := slot_end new_slot\<rparr>"

text \<open>The body of the \<open>try\<close> under \<open>if req.confirm_reschedule\<close>.\<close>

definition commit_reschedule ::
  "env \<Rightarrow> world \<Rightarrow> RescheduleReq \<Rightarrow> event \<Rightarrow> string option \<Rightarrow> string \<Rightarrow> Slot \<Rightarrow> (exn + RescheduleRes) \<times> world" where
  "commit_reschedule env w req existing_event booking_ref old_slot_speakable new_slot =
     (if fails env w (EventsUpdate (ev_id existing_event)) then
        (Inr (reschedule_failure ''update_failed''
                (''Failed to update booking: '' @ exn_text env HttpError)), w)
      else
        (let w1 = calendar_update w (ev_id existing_event)
                    (updated_event req existing_event new_slot);
             (sheet_update_success, w2) =
                update_sheet_reschedule env w1 booking_ref (slot_start new_slot) (slot_end new_slot)
                  (or_default (rr_notes req)
                     (''Rescheduled from '' @ old_slot_speakable @ '' to '' @ speakable new_slot))
         in (Inr \<lparr>rs_success = True, rs_booking_ref = booking_ref,
                  rs_old_slot = Some old_slot_speakable, rs_new_slot = Some new_slot,
                  rs_available_slots = None, rs_confirm_speakable = Some (speakable new_slot),
                  rs_error = None,
                  rs_reason = Some (''Updated successfully. Sheet update: ''
                                     @ (if sheet_update_success then ''True'' else ''False''))\<rparr>,
             w2)))"

text \<open>
  In \<open>reschedule_booking\<close> the appointment type read from the summary is never used,
  and the final \<open>unexpected_error\<close> return cannot be reached: each branch returns, or
  goes on with the confirmation flag set and so enters the commit. The model has
  neither. \<open>slots[0]\<close> on an empty list is \<open>IndexError\<close>.
\<close>

definition reschedule_booking :: "env \<Rightarrow> world \<Rightarrow> string + RescheduleReq \<Rightarrow> (exn + RescheduleRes) \<times> world" where
  "reschedule_booking env w payload =
     (case payload of
        Inl msg \<Rightarrow> (Inr (reschedule_failure ''validation_error'' msg), w)
      | Inr req \<Rightarrow>
          (case locate_booking env w (rr_booking_ref req) (rr_name req) (rr_contact req) of
             (None, booking_ref) \<Rightarrow>
               (Inr (reschedule_failure ''booking_not_found'' ''No booking found with provided details''), w)
           | (Some existing_event, booking_ref) \<Rightarrow>
               (case speakable_range env (ev_start existing_event) (ev_end existing_event) of
                  Inl e \<Rightarrow> (Inl e, w)
                | Inr old_slot_speakable \<Rightarrow>
                    (case parse_text env (rr_new_preferred_datetime_text req) of
                       None \<Rightarrow>
                         (Inr (reschedule_failure ''invalid_datetime''
                                 ''Could not parse new preferred datetime''), w)
                     | Some new_anchor \<Rightarrow>
                         (case find_available_slots env w (rr_new_preferred_datetime_text req) 3 of
                            Inl e \<Rightarrow> (Inl e, w)
                          | Inr slot_result \<Rightarrow>
                              (if fs_reason slot_result = Some ''preferred_time_available'' then
                                 (case fs_slots slot_result of
                                    [] \<Rightarrow> (Inl IndexError, w)
                                  | new_slot # _ \<Rightarrow>
                                      (if \<not> rr_confirm_reschedule req then
                                         (Inr \<lparr>rs_success = True, rs_booking_ref = booking_ref,
                                               rs_old_slot = Some old_slot_speakable,
                                               rs_new_slot = Some new_slot,
                                               rs_available_slots = None,
                                               rs_confirm_speakable = None, rs_error = None,
                                               rs_reason = Some ''preferred_time_available''\<rparr>, w)
                                       else commit_reschedule env w req existing_event booking_ref
                                              old_slot_speakable new_slot))
                               else if fs_reason slot_result = Some ''preferred_time_busy'' then
                                 (if \<not> rr_confirm_reschedule req then
                                    (Inr \<lparr>rs_success = False, rs_booking_ref = booking_ref,
                                          rs_old_slot = Some old_slot_speakable,
                                          rs_new_slot = None,
                                          rs_available_slots = Some (fs_slots slot_result),
                                          rs_confirm_speakable = None, rs_error = None,
                                          rs_reason = Some ''preferred_time_busy''\<rparr>, w)
                                  else
                                    (case fs_slots slot_result of
                                       [] \<Rightarrow> (Inl IndexError, w)
                                     | new_slot # _ \<Rightarrow>
                                         commit_reschedule env w req existing_event booking_ref
                                           old_slot_speakable new_slot))
                               else
                                 (Inr (reschedule_failure ''no_slots_available''
                                         ''No available slots found for the requested time period''), w)))))))"

definition cancel_failure :: "string \<Rightarrow> string \<Rightarrow> CancelRes" where
  "cancel_failure err why =
     \<lparr>cn_success = False, cn_booking_ref = None, cn_cancelled_slot = None,
      cn_error = Some err, cn_reason = Some why\<rparr>"

text \<open>\<open>events().delete\<close>: the event with the given id is removed.\<close>

definition calendar_delete :: "world \<Rightarrow> string \<Rightarrow> world" where
  "calendar_delete w event_id = w\<lparr>events := filter (\<lambda>e. ev_id e \<noteq> event_id) (events w)\<rparr>"

definition cancel_booking :: "env \<Rightarrow> world \<Rightarrow> string + CancelReq \<Rightarrow> (exn + CancelRes) \<times> world" where
  "cancel_booking env w payload =
     (case payload of
        Inl msg \<Rightarrow> (Inr (cancel_failure ''validation_error'' msg), w)
      | Inr req \<Rightarrow>
          (case locate_booking env w (cq_booking_ref req) (cq_name req) (cq_contact req) of
             (None, booking_ref) \<Rightarrow>
               (Inr (cancel_failure ''booking_not_found'' ''No booking found with provided details''), w)
           | (Some existing_event, booking_ref) \<Rightarrow>
               (case speakable_range env (ev_start existing_event) (ev_end existing_event) of
                  Inl e \<Rightarrow> (Inl e, w)
                | Inr cancelled_slot_speakable \<Rightarrow>
                    (if fails env w (EventsDelete (ev_id existing_event)) then
                       (Inr (cancel_failure ''cancellation_failed''
                               (''Failed to cancel booking: '' @ exn_text env HttpError)), w)
                     else
                       (let w1 = calendar_delete w (ev_id existing_event);
                            (sheet_ok, w2) = update_sheet_status env w1 booking_ref ''cancelled''
                                               (or_default (cq_reason req) ''No reason provided'')
                        in (Inr \<lparr>cn_success = True, cn_booking_ref = booking_ref,
                                 cn_cancelled_slot = Some cancelled_slot_speakable,
                                 cn_error = None, cn_reason = None\<rparr>, w2))))))"

section \<open>Notions for the statements\<close>

text \<open>The booking reference \<open>create_event\<close> computes for a request.\<close>

definition request_ref :: "env \<Rightarrow> CreateEventReq \<Rightarrow> string" where
  "request_ref env req =
     booking_ref_key env (p_name (cr_patient req)) (p_contact (cr_patient req))
       (slot_start (cr_slot req)) (cr_appointment_type req)"

text \<open>The event \<open>create_event\<close> inserts for a request.\<close>

definition created_event :: "env \<Rightarrow> world \<Rightarrow> CreateEventReq \<Rightarrow> event" where
  "created_event env w req =
     \<lparr>ev_id = new_event_id env (events w),
      ev_summary = cr_appointment_type req @ '' - '' @ p_name (cr_patient req),
      ev_description = ''Contact: '' @ p_contact (cr_patient req) @ [CHR 0x0A] @ ''Ref: '' @ request_ref env req,
      ev_start = slot_start (cr_slot req),
      ev_end = slot_end (cr_slot req),
      ev_booking_ref = Some (request_ref env req)\<rparr>"

text \<open>
  What a ledger operation may do to the state: the calendar is untouched, no row is
  added or removed, and a row that differs afterwards carried the reference and an open
  status before.
\<close>

definition touches_open_rows_only :: "string option \<Rightarrow> world \<Rightarrow> world \<Rightarrow> bool" where
  "touches_open_rows_only booking_ref w w' =
     (events w' = events w \<and> length (rows w') = length (rows w) \<and>
      list_all (\<lambda>i. rows w' ! i = rows w ! i \<or>
                    (length (rows w ! i) > 1 \<and> Some (rows w ! i ! 1) = booking_ref \<and>
                     length (rows w ! i) > 10 \<and> open_status (rows w ! i ! 10)))
        [0 ..< length (rows w)])"

section \<open>The scan of the slot finder, in the words of the specification\<close>











section \<open>An example environment\<close>

text \<open>
  A concrete calendar service for the examples below: the clock stands at Monday
  2025-01-06 08:00 (UTC-5), the free/busy answer lists the events that overlap the
  window, and \<open>down\<close> says which API calls fail.
\<close>

definition demo_time :: "int \<Rightarrow> int \<Rightarrow> int \<Rightarrow> datetime" where
  "demo_time d h m = \<lparr>wall = from_fields d h m 0 0, utcoffset = - hours 5\<rparr>"

definition overlap :: "datetime \<Rightarrow> datetime \<Rightarrow> event \<Rightarrow> (datetime \<times> datetime) list" where
  "overlap s e ev =
     (case ev_start ev of
        Iso a \<Rightarrow> (case ev_end ev of
                    Iso b \<Rightarrow> if dt_lt a e \<and> dt_lt s b then [(a, b)] else []
                  | Malformed _ \<Rightarrow> [])
      | Malformed _ \<Rightarrow> [])"

definition demo_parse :: "string \<Rightarrow> datetime option" where
  "demo_parse text =
     (if text = ''monday 10am'' then Some (demo_time 739256 10 0)
      else if text = ''monday 4:50pm'' then Some (demo_time 739256 16 50)
      else None)"

definition demo_env :: "(api_call \<Rightarrow> bool) \<Rightarrow> env" where
  "demo_env down =
     \<lparr>now = demo_time 739256 8 0,
      logged_utc = ''01/06/2025 13:00:00 UTC'',
      parse_text = demo_parse,
      isoformat_text = (\<lambda>d. ''2025''),
      sha1_hexdigest = (\<lambda>s. ''0a1b2c3d4e'' @ s),
      speakable_text = (\<lambda>a b. ''a slot''),
      sheet_text = (\<lambda>d. ''a time''),
      busy = (\<lambda>evs s e. concat (map (overlap s e) evs)),
      search = (\<lambda>evs q. evs),
      new_event_id = (\<lambda>evs. ''ev'' @ replicate (length evs) (CHR ''i'')),
      fails = (\<lambda>w c. down c),
      exn_text = (\<lambda>e. ''failed'')\<rparr>"

definition empty_world :: world where
  "empty_world = \<lparr>events = [], rows = []\<rparr>"

text \<open>
  A request for Monday 10:00, a calendar where that half hour is taken by another
  event, and the calendar and ledger after the request was served on an empty calendar.
\<close>

definition demo_request :: CreateEventReq where
  "demo_request =
     \<lparr>cr_appointment_type = ''Consultation'',
      cr_slot = \<lparr>slot_start = Iso (demo_time 739256 10 0),
                 slot_end = Iso (demo_time 739256 10 30),
                 speakable = ''Mon Jan 6, 10:00 AM''\<rparr>,
      cr_patient = \<lparr>p_name = ''Bob'', p_contact = ''4165550100'', p_email = None\<rparr>,
      cr_idempotency_key = None,
      cr_notes = None\<rparr>"

definition walk_in :: event where
  "walk_in =
     \<lparr>ev_id = ''walkin'', ev_summary = ''Flu shot - Ann'', ev_description = ''Contact: 555'',
      ev_start = Iso (demo_time 739256 10 0), ev_end = Iso (demo_time 739256 10 30),
      ev_booking_ref = None\<rparr>"

definition busy_world :: world where
  "busy_world = \<lparr>events = [walk_in], rows = []\<rparr>"

definition demo_booking :: event where
  "demo_booking =
     \<lparr>ev_id = ''ev'', ev_summary = ''Consultation - Bob'',
      ev_description = ''Contact: 4165550100'' @ [CHR 0x0A] @ ''Ref: 0A1-B2C'',
      ev_start = Iso (demo_time 739256 10 0), ev_end = Iso (demo_time 739256 10 30),
      ev_booking_ref = Some ''0A1-B2C''\<rparr>"

definition booked_world :: world where
  "booked_world =
     \<lparr>events = [demo_booking],
      rows = [[''01/06/2025 13:00:00 UTC'', ''0A1-B2C'', ''book'', ''Consultation'', ''a time'', ''a time'',
               ''Bob'', ''4165550100'', ''retell-chat'', [], ''confirmed'']]\<rparr>"

text \<open>
  A ledger with two rows for one reference: the first cancelled, the second confirmed.
\<close>

definition demo_ledger :: world where
  "demo_ledger =
     \<lparr>events = [],
      rows = [[''01/02/2025 15:00:00 UTC'', ''0A1-B2C'', ''book'', ''Consultation'', ''a time'', ''a time'',
               ''Bob'', ''4165550100'', ''retell-chat'', ''Cancelled: sick'', ''cancelled''],
              [''01/06/2025 13:00:00 UTC'', ''0A1-B2C'', ''book'', ''Consultation'', ''a time'', ''a time'',
               ''Bob'', ''4165550100'', ''retell-chat'', [], ''confirmed'']]\<rparr>"

text \<open>
  Reschedule requests for the booking of the example: to a free time and to a taken one.
\<close>

definition demo_reschedule :: "string \<Rightarrow> bool \<Rightarrow> RescheduleReq" where
  "demo_reschedule text confirm =
     \<lparr>rr_booking_ref = Some ''0A1-B2C'', rr_name = None, rr_contact = None,
      rr_new_preferred_datetime_text = text, rr_appointment_type = None,
      rr_confirm_reschedule = confirm, rr_notes = None\<rparr>"

definition demo_slot :: "int \<Rightarrow> int \<Rightarrow> int \<Rightarrow> int \<Rightarrow> Slot" where
  "demo_slot h m h' m' =
     \<lparr>slot_start = Iso (demo_time 739256 h m), slot_end = Iso (demo_time 739256 h' m'),
      speakable = ''a slot''\<rparr>"


section \<open>Properties of the time utilities\<close>





lemma minute_range: "0 \<le> dt_minute t \<and> dt_minute t < 60"
  by (simp add: dt_minute_def)

lemma second_range: "0 \<le> dt_second t \<and> dt_second t < 60"
  by (simp add: dt_second_def)

lemma microsecond_range: "0 \<le> dt_microsecond t \<and> dt_microsecond t < 1000000"
  by (simp add: dt_microsecond_def)

lemma hour_range: "0 \<le> dt_hour t \<and> dt_hour t < 24"
  by (simp add: dt_hour_def)

lemma weekday_range: "0 \<le> weekday t \<and> weekday t < 7"
  by (simp add: weekday_def)












section \<open>Properties of the availability check\<close>

lemma demo_fields:
  "dt_day (demo_time 739256 10 0) = 739256"
  "dt_hour (demo_time 739256 10 0) = 10"
  "dt_minute (demo_time 739256 10 0) = 0"
  "weekday (demo_time 739256 10 0) = 0"
  by (simp_all add: demo_time_def from_fields_def dt_day_def dt_hour_def dt_minute_def weekday_def)

lemma demo_business: "is_business_hours (demo_time 739256 10 0)"
  by (simp add: is_business_hours_def demo_fields)

text \<open>
  C2 (as amended). \<open>is_slot_available\<close> returns false, without a query, whenever the
  start is not a valid business slot; otherwise it queries free/busy over
  [start, start + 30 min) and, when the query answers, returns true iff the busy set is
  empty; a fetch error of the query is not caught and reaches the caller.
\<close>

theorem is_slot_available_cases:
  "is_slot_available env w start_dt =
     (if \<not> is_business_hours start_dt then Inr False
      else if fails env w (FreeBusyQuery start_dt (add_timedelta start_dt (minutes 30))) then Inl HttpError
      else Inr (busy env (events w) start_dt (add_timedelta start_dt (minutes 30)) = []))"
  by (simp add: is_slot_available_def freebusy_range_def)

text \<open>
  C2 (as stated) fails: on Monday 10:00, a business slot, with a failing free/busy
  query, \<open>is_slot_available\<close> does not return false; the error leaves the function.
\<close>

theorem is_slot_available_fetch_error_escapes:
  "is_business_hours (demo_time 739256 10 0)
   \<and> fails (demo_env (\<lambda>c. True)) empty_world
        (FreeBusyQuery (demo_time 739256 10 0) (add_timedelta (demo_time 739256 10 0) (minutes 30)))
   \<and> is_slot_available (demo_env (\<lambda>c. True)) empty_world (demo_time 739256 10 0) = Inl HttpError
   \<and> is_slot_available (demo_env (\<lambda>c. True)) empty_world (demo_time 739256 10 0) \<noteq> Inr False"
  by (simp add: is_slot_available_def freebusy_range_def demo_business demo_env_def)

section \<open>The loops compute the scan\<close>








section \<open>Order of the candidates\<close>






lemma weekday_next_day:
  "weekday (add_timedelta p (days 1)) = (weekday p + 1) mod 7"
proof -
  have "dt_day (add_timedelta p (days 1)) = dt_day p + 1"
    by (simp add: dt_day_def add_timedelta_def days_def)
  then show ?thesis by (simp add: weekday_def mod_add_left_eq)
qed

















section \<open>Properties of the slot finder\<close>


section \<open>Examples of slot discovery\<close>

lemmas demo_eval =
  demo_env_def demo_parse_def demo_time_def from_fields_def overlap_def
  booked_world_def demo_booking_def
  is_slot_available_def freebusy_range_def is_business_hours_def
  weekday_def dt_day_def dt_hour_def dt_minute_def dt_second_def dt_microsecond_def
  round_to_next_half_hour_def replace_msu_def replace_hmsu_def add_timedelta_def
  minutes_def hours_def days_def dt_le_def dt_lt_def dt_max_def utc_def
  make_slot_def speakable_range_def isoformat_def Let_def

lemma demo_find_free:
  "find_available_slots (demo_env (\<lambda>c. False)) booked_world ''monday 4:50pm'' 3
     = Inr \<lparr>fs_slots = [\<lparr>slot_start = Iso (demo_time 739256 17 0),
                           slot_end = Iso (demo_time 739256 17 30),
                           speakable = ''a slot''\<rparr>],
            fs_reason = Some ''preferred_time_available''\<rparr>"
  by (simp add: find_available_slots_def demo_eval)

lemma demo_find_busy:
  "find_available_slots (demo_env (\<lambda>c. False)) booked_world ''monday 10am'' 3
     = Inr \<lparr>fs_slots = [\<lparr>slot_start = Iso (demo_time 739256 10 30),
                           slot_end = Iso (demo_time 739256 11 0),
                           speakable = ''a slot''\<rparr>,
                         \<lparr>slot_start = Iso (demo_time 739256 11 0),
                           slot_end = Iso (demo_time 739256 11 30),
                           speakable = ''a slot''\<rparr>,
                         \<lparr>slot_start = Iso (demo_time 739256 11 30),
                           slot_end = Iso (demo_time 739256 12 0),
                           speakable = ''a slot''\<rparr>],
            fs_reason = Some ''preferred_time_busy''\<rparr>"
  by (simp add: find_available_slots_def top_slots_def days_loop.simps day_loop.simps demo_eval)


section \<open>Properties of create\<close>

lemma create_validated_key:
  "create_validated env w (req\<lparr>cr_idempotency_key := k\<rparr>) = create_validated env w req"
  by (simp add: create_validated_def Let_def split: list.split sum.split)

lemma create_event_valid: "create_event env w (Inr req) = create_validated env w req"
  by (simp add: create_event_def create_validated_key)

text \<open>
  C9. The caller's \<open>idempotency_key\<close> has no effect on \<open>create_event\<close>: two
  requests that differ only in that field (absent or present, any value) compute the
  same booking reference and yield the same response and the same calendar and ledger.
\<close>

theorem create_event_ignores_idempotency_key:
  "create_event env w (Inr (req\<lparr>cr_idempotency_key := k\<rparr>))
     = create_event env w (Inr (req\<lparr>cr_idempotency_key := k'\<rparr>))
   \<and> request_ref env (req\<lparr>cr_idempotency_key := k\<rparr>)
     = request_ref env (req\<lparr>cr_idempotency_key := k'\<rparr>)"
  by (simp add: create_validated_key create_event_valid request_ref_def)

lemma events_with_ref_empty:
  "(events_with_ref w r = []) = (\<forall>e \<in> set (events w). ev_booking_ref e \<noteq> Some r)"
  by (auto simp: events_with_ref_def filter_empty_conv take_Suc split: list.splits)


lemma create_validated_fresh:
  assumes "\<not> fails env w (EventsListByRef (request_ref env req))"
    and "events_with_ref w (request_ref env req) = []"
  shows "create_validated env w req =
     (case isoparse (slot_start (cr_slot req)) of
        Inl e \<Rightarrow> (Inl e, w)
      | Inr s_dt \<Rightarrow>
          (case is_slot_available env w s_dt of
             Inl e \<Rightarrow> (Inl e, w)
           | Inr a \<Rightarrow>
               (if \<not> a then (Inr (create_failure ''slot_taken'' ''slot_no_longer_available''), w)
                else if fails env w EventsInsert then (Inl HttpError, w)
                else
                  (case append_sheet_row env (w\<lparr>events := events w @ [created_event env w req]\<rparr>)
                          ''confirmed'' (cr_appointment_type req)
                          (slot_start (cr_slot req)) (slot_end (cr_slot req))
                          (p_name (cr_patient req)) (p_contact (cr_patient req))
                          (request_ref env req) (or_default (cr_notes req) []) of
                     Inl e \<Rightarrow> (Inl e, w\<lparr>events := events w @ [created_event env w req]\<rparr>)
                   | Inr w2 \<Rightarrow>
                       (case speakable_range env (slot_start (cr_slot req)) (slot_end (cr_slot req)) of
                          Inl e \<Rightarrow> (Inl e, w2)
                        | Inr sp \<Rightarrow>
                            (Inr (create_success (request_ref env req)
                                   (ev_id (created_event env w req)) sp), w2))))))"
  using assms unfolding create_validated_def request_ref_def created_event_def Let_def by simp


lemma create_event_slot_taken_aux:
  assumes "\<not> fails env w (EventsListByRef (request_ref env req))"
    and "events_with_ref w (request_ref env req) = []"
    and "slot_start (cr_slot req) = Iso s_dt"
    and "is_slot_available env w s_dt = Inr False"
  shows "create_event env w (Inr req) = (Inr (create_failure ''slot_taken'' ''slot_no_longer_available''), w)"
  using assms by (simp add: create_event_valid create_validated_fresh)

text \<open>
  C3. Create-path atomicity on \<open>slot_taken\<close>: when the lookup by reference answers
  and no event of the calendar carries the request's reference, and the re-check
  \<open>is_slot_available\<close> of the slot's start returns false, \<open>create_event\<close> returns
  the failure response with error \<open>slot_taken\<close>, and calendar and ledger are as
  before: no insert, no append.
\<close>

theorem create_event_slot_taken:
  assumes "\<not> fails env w (EventsListByRef (request_ref env req))"
    and "\<forall>e \<in> set (events w). ev_booking_ref e \<noteq> Some (request_ref env req)"
    and "slot_start (cr_slot req) = Iso s_dt"
    and "is_slot_available env w s_dt = Inr False"
  shows "\<exists>r. create_event env w (Inr req) = (Inr r, w)
             \<and> ce_success r = False \<and> ce_error r = Some ''slot_taken''
             \<and> ce_reason r = Some ''slot_no_longer_available''
             \<and> ce_booking_ref r = None \<and> ce_event_id r = None \<and> ce_confirm_speakable r = None"
  using create_event_slot_taken_aux [OF assms(1) _ assms(3,4)] assms(2)
  by (simp add: events_with_ref_empty create_failure_def)

lemma create_success_fields: "ce_success (create_success r i sp)" "ce_booking_ref (create_success r i sp) = Some r"
  "ce_event_id (create_success r i sp) = Some i"
  by (simp_all add: create_success_def)




lemma demo_avail_busy: "is_slot_available (demo_env (\<lambda>c. False)) busy_world (demo_time 739256 10 0) = Inr False"
  by (simp add: is_slot_available_def freebusy_range_def demo_business demo_env_def busy_world_def walk_in_def
      overlap_def dt_lt_def utc_def add_timedelta_def minutes_def demo_time_def from_fields_def hours_def)


theorem create_event_slot_taken_witness:
  "create_event (demo_env (\<lambda>c. False)) busy_world (Inr demo_request)
     = (Inr (create_failure ''slot_taken'' ''slot_no_longer_available''), busy_world)
   \<and> is_slot_available (demo_env (\<lambda>c. False)) busy_world (demo_time 739256 10 0) = Inr False"
proof -
  have 1: "\<not> fails (demo_env (\<lambda>c. False)) busy_world (EventsListByRef (request_ref (demo_env (\<lambda>c. False)) demo_request))"
    by (simp add: demo_env_def)
  have 2: "\<forall>e \<in> set (events busy_world). ev_booking_ref e \<noteq> Some (request_ref (demo_env (\<lambda>c. False)) demo_request)"
    by (simp add: busy_world_def walk_in_def)
  have 3: "slot_start (cr_slot demo_request) = Iso (demo_time 739256 10 0)"
    by (simp add: demo_request_def)
  from create_event_slot_taken [OF 1 2 3 demo_avail_busy]
  obtain r where "create_event (demo_env (\<lambda>c. False)) busy_world (Inr demo_request) = (Inr r, busy_world)"
    and "ce_success r = False" "ce_error r = Some ''slot_taken''"
    "ce_reason r = Some ''slot_no_longer_available''"
    "ce_booking_ref r = None" "ce_event_id r = None" "ce_confirm_speakable r = None"
    by blast
  then show ?thesis
    using demo_avail_busy by (simp add: create_failure_def)
qed








section \<open>Properties of the ledger operations\<close>

lemma touches_refl: "touches_open_rows_only r w w"
  by (simp add: touches_open_rows_only_def list_all_iff)

lemma values_update_row:
  assumes "k < length (rows w)"
  shows "events (values_update w k c v) = events w"
    and "length (rows (values_update w k c v)) = length (rows w)"
    and "i \<noteq> k \<Longrightarrow> rows (values_update w k c v) ! i = rows w ! i"
  using assms by (simp_all add: values_update_def)

lemma touches_one_row:
  assumes k: "k < length (rows w)"
    and ev: "events w' = events w" and len: "length (rows w') = length (rows w)"
    and other: "\<And>i. i \<noteq> k \<Longrightarrow> rows w' ! i = rows w ! i"
    and m: "length (rows w ! k) > 1" "Some (rows w ! k ! 1) = r"
    and st: "length (rows w ! k) > 10" "open_status (rows w ! k ! 10)"
  shows "touches_open_rows_only r w w'"
  unfolding touches_open_rows_only_def list_all_iff
  using assms by (metis (no_types, lifting))

lemma status_loop_touches:
  assumes "drop k (rows w) = rs"
  shows "touches_open_rows_only r w (snd (status_loop env w r st notes rs k))"
  using assms
proof (induction rs arbitrary: k)
  case Nil
  then show ?case by (simp add: touches_refl)
next
  case (Cons row rest)
  from Cons.prems have k: "k < length (rows w)"
    by (metis drop_all leI list.distinct(1))
  from Cons.prems k have row: "rows w ! k = row"
    by (metis Cons_nth_drop_Suc list.inject)
  from Cons.prems k have rest: "drop (Suc k) (rows w) = rest"
    by (metis Cons_nth_drop_Suc list.inject)
  show ?case
  proof (cases "length row > 1 \<and> Some (row ! 1) = r \<and> length row > 10 \<and> open_status (row ! 10)")
    case False
    then have "status_loop env w r st notes (row # rest) k = status_loop env w r st notes rest (Suc k)"
      by auto
    with Cons.IH [OF rest] show ?thesis by simp
  next
    case True
    let ?w1 = "values_update w k 10 [st]"
    have k1: "k < length (rows ?w1)" using k by (simp add: values_update_row)
    have t1: "touches_open_rows_only r w ?w1"
      using True k row by (intro touches_one_row [of k]) (simp_all add: values_update_row)
    have t2: "touches_open_rows_only r w (values_update ?w1 k 9 [x])" for x
      using True k k1 row by (intro touches_one_row [of k]) (simp_all add: values_update_row)
    from True t1 t2 show ?thesis
      by (simp add: Let_def touches_refl)
  qed
qed

lemma reschedule_loop_touches:
  assumes "drop k (rows w) = rs"
  shows "touches_open_rows_only r w (snd (reschedule_loop env w r s e notes rs k))"
  using assms
proof (induction rs arbitrary: k)
  case Nil
  then show ?case by (simp add: touches_refl)
next
  case (Cons row rest)
  from Cons.prems have k: "k < length (rows w)"
    by (metis drop_all leI list.distinct(1))
  from Cons.prems k have row: "rows w ! k = row"
    by (metis Cons_nth_drop_Suc list.inject)
  from Cons.prems k have rest: "drop (Suc k) (rows w) = rest"
    by (metis Cons_nth_drop_Suc list.inject)
  show ?case
  proof (cases "length row > 1 \<and> Some (row ! 1) = r")
    case False
    then have "reschedule_loop env w r s e notes (row # rest) k = reschedule_loop env w r s e notes rest (Suc k)"
      by auto
    with Cons.IH [OF rest] show ?thesis by simp
  next
    case m: True
    show ?thesis
    proof (cases "length row > 10 \<and> open_status (row ! 10)")
      case False
      with m show ?thesis by (auto simp: touches_refl)
    next
      case True
      have t: "touches_open_rows_only r w (values_update w k 4 x)" for x
        using True m k row by (intro touches_one_row [of k]) (simp_all add: values_update_row)
      from True m t show ?thesis
        by (simp add: Let_def touches_refl split: sum.split)
    qed
  qed
qed

lemma update_sheet_status_touches:
  "touches_open_rows_only r w (snd (update_sheet_status env w r st notes))"
  by (simp add: update_sheet_status_def touches_refl status_loop_touches)

lemma update_sheet_reschedule_touches:
  "touches_open_rows_only r w (snd (update_sheet_reschedule env w r s e notes))"
  by (simp add: update_sheet_reschedule_def touches_refl reschedule_loop_touches)

lemma touches_cancelled:
  assumes "touches_open_rows_only r w w'" and "i < length (rows w)"
    and "\<not> (length (rows w ! i) > 10 \<and> open_status (rows w ! i ! 10))"
  shows "rows w' ! i = rows w ! i"
  using assms by (auto simp: touches_open_rows_only_def list_all_iff)

text \<open>
  C8. Cancelled ledger rows are immutable history. \<open>update_sheet_status\<close> and
  \<open>update_sheet_reschedule\<close> leave the calendar alone and keep the number of rows;
  a row they change carried the booking reference in its second column and the status
  \<open>confirmed\<close> or \<open>rescheduled\<close> in its eleventh; so a row whose status is
  \<open>cancelled\<close> is the same after either operation.
\<close>

theorem cancelled_rows_immutable:
  "open_status st = (st = ''confirmed'' \<or> st = ''rescheduled'')
   \<and> touches_open_rows_only r w (snd (update_sheet_status env w r new_status why))
   \<and> touches_open_rows_only r w (snd (update_sheet_reschedule env w r s e why))
   \<and> (i < length (rows w) \<and> length (rows w ! i) > 10 \<and> rows w ! i ! 10 = ''cancelled'' \<longrightarrow>
        rows (snd (update_sheet_status env w r new_status why)) ! i = rows w ! i
      \<and> rows (snd (update_sheet_reschedule env w r s e why)) ! i = rows w ! i)"
proof (intro conjI impI)
  show "open_status st = (st = ''confirmed'' \<or> st = ''rescheduled'')"
    by (simp add: open_status_def)
  show "touches_open_rows_only r w (snd (update_sheet_status env w r new_status why))"
    by (rule update_sheet_status_touches)
  show "touches_open_rows_only r w (snd (update_sheet_reschedule env w r s e why))"
    by (rule update_sheet_reschedule_touches)
next
  assume a: "i < length (rows w) \<and> length (rows w ! i) > 10 \<and> rows w ! i ! 10 = ''cancelled''"
  then have c: "\<not> (length (rows w ! i) > 10 \<and> open_status (rows w ! i ! 10))"
    by (simp add: open_status_def)
  from a have i: "i < length (rows w)" by simp
  show "rows (snd (update_sheet_status env w r new_status why)) ! i = rows w ! i"
    by (rule touches_cancelled [OF update_sheet_status_touches i c])
  show "rows (snd (update_sheet_reschedule env w r s e why)) ! i = rows w ! i"
    by (rule touches_cancelled [OF update_sheet_reschedule_touches i c])
qed

theorem cancelled_rows_immutable_witness:
  "rows (snd (update_sheet_status (demo_env (\<lambda>c. False)) demo_ledger (Some ''0A1-B2C'')
             ''cancelled'' ''moved away'')) ! 0 = rows demo_ledger ! 0
   \<and> rows (snd (update_sheet_reschedule (demo_env (\<lambda>c. False)) demo_ledger (Some ''0A1-B2C'')
             (Iso (demo_time 739256 11 0)) (Iso (demo_time 739256 11 30)) ''moved away'')) ! 0
       = rows demo_ledger ! 0
   \<and> rows demo_ledger ! 0 ! 10 = ''cancelled''
   \<and> update_sheet_status (demo_env (\<lambda>c. False)) demo_ledger (Some ''0A1-B2C'') ''cancelled'' ''moved away''
       = (True, demo_ledger\<lparr>rows := [rows demo_ledger ! 0,
            [''01/06/2025 13:00:00 UTC'', ''0A1-B2C'', ''book'', ''Consultation'', ''a time'', ''a time'',
             ''Bob'', ''4165550100'', ''retell-chat'', ''Cancelled: moved away'', ''cancelled'']]\<rparr>)"
proof -
  have h: "0 < length (rows demo_ledger) \<and> length (rows demo_ledger ! 0) > 10
           \<and> rows demo_ledger ! 0 ! 10 = ''cancelled''"
    by (simp add: demo_ledger_def)
  have u: "update_sheet_status (demo_env (\<lambda>c. False)) demo_ledger (Some ''0A1-B2C'') ''cancelled'' ''moved away''
       = (True, demo_ledger\<lparr>rows := [rows demo_ledger ! 0,
            [''01/06/2025 13:00:00 UTC'', ''0A1-B2C'', ''book'', ''Consultation'', ''a time'', ''a time'',
             ''Bob'', ''4165550100'', ''retell-chat'', ''Cancelled: moved away'', ''cancelled'']]\<rparr>)"
    by (simp add: update_sheet_status_def demo_env_def demo_ledger_def open_status_def
          values_update_def write_cells_def Let_def)
  from conjunct2 [OF conjunct2 [OF conjunct2 [OF cancelled_rows_immutable
      [where w = demo_ledger and i = 0 and env = "demo_env (\<lambda>c. False)" and r = "Some ''0A1-B2C''"
         and new_status = "''cancelled''" and why = "''moved away''"
         and s = "Iso (demo_time 739256 11 0)" and e = "Iso (demo_time 739256 11 30)"]]], rule_format, OF h]
  have "rows (snd (update_sheet_status (demo_env (\<lambda>c. False)) demo_ledger (Some ''0A1-B2C'')
             ''cancelled'' ''moved away'')) ! 0 = rows demo_ledger ! 0
   \<and> rows (snd (update_sheet_reschedule (demo_env (\<lambda>c. False)) demo_ledger (Some ''0A1-B2C'')
             (Iso (demo_time 739256 11 0)) (Iso (demo_time 739256 11 30)) ''moved away'')) ! 0
       = rows demo_ledger ! 0" .
  with h u show ?thesis by blast
qed

section \<open>Properties of reschedule\<close>

lemma find_available_slots_parsed:
  "find_available_slots env w t l = Inr res \<Longrightarrow> \<exists>anchor. parse_text env t = Some anchor"
  by (cases "parse_text env t") (simp_all add: find_available_slots_def)

lemma reschedule_unconfirmed_state:
  assumes "\<not> rr_confirm_reschedule req"
  shows "snd (reschedule_booking env w (Inr req)) = w"
  using assms unfolding reschedule_booking_def
  by (simp split: prod.split option.split sum.split list.split)

lemma reschedule_invalid_state: "snd (reschedule_booking env w (Inl msg)) = w"
  by (simp add: reschedule_booking_def)

lemma reschedule_located:
  assumes "locate_booking env w (rr_booking_ref req) (rr_name req) (rr_contact req) = (Some ev, bref)"
    and "speakable_range env (ev_start ev) (ev_end ev) = Inr old"
    and "find_available_slots env w (rr_new_preferred_datetime_text req) 3 = Inr res"
  shows "reschedule_booking env w (Inr req) =
     (if fs_reason res = Some ''preferred_time_available'' then
        (case fs_slots res of
           [] \<Rightarrow> (Inl IndexError, w)
         | new_slot # _ \<Rightarrow>
             (if \<not> rr_confirm_reschedule req then
                (Inr \<lparr>rs_success = True, rs_booking_ref = bref, rs_old_slot = Some old,
                      rs_new_slot = Some new_slot, rs_available_slots = None,
                      rs_confirm_speakable = None, rs_error = None,
                      rs_reason = Some ''preferred_time_available''\<rparr>, w)
              else commit_reschedule env w req ev bref old new_slot))
      else if fs_reason res = Some ''preferred_time_busy'' then
        (if \<not> rr_confirm_reschedule req then
           (Inr \<lparr>rs_success = False, rs_booking_ref = bref, rs_old_slot = Some old,
                 rs_new_slot = None, rs_available_slots = Some (fs_slots res),
                 rs_confirm_speakable = None, rs_error = None,
                 rs_reason = Some ''preferred_time_busy''\<rparr>, w)
         else
           (case fs_slots res of
              [] \<Rightarrow> (Inl IndexError, w)
            | new_slot # _ \<Rightarrow> commit_reschedule env w req ev bref old new_slot))
      else
        (Inr (reschedule_failure ''no_slots_available''
                ''No available slots found for the requested time period''), w))"
proof -
  from find_available_slots_parsed [OF assms(3)] obtain anchor
    where "parse_text env (rr_new_preferred_datetime_text req) = Some anchor" ..
  with assms show ?thesis
    unfolding reschedule_booking_def by simp
qed

text \<open>
  C4. Two-phase reschedule. With the confirmation flag not set, \<open>reschedule_booking\<close>
  leaves calendar and ledger exactly as they were, whatever the outcome; calendar or
  ledger differ afterwards only for a validated request with the flag set. For a
  located booking, the unconfirmed request returns the proposed slot when the preferred
  time is free, and the list of alternatives when it is busy.
\<close>

theorem reschedule_two_phase:
  "(\<not> rr_confirm_reschedule req \<longrightarrow> snd (reschedule_booking env w (Inr req)) = w)
   \<and> (snd (reschedule_booking env w payload) \<noteq> w \<longrightarrow>
        (\<exists>req'. payload = Inr req' \<and> rr_confirm_reschedule req'))
   \<and> (\<not> rr_confirm_reschedule req
        \<and> locate_booking env w (rr_booking_ref req) (rr_name req) (rr_contact req) = (Some ev, bref)
        \<and> speakable_range env (ev_start ev) (ev_end ev) = Inr old
        \<and> find_available_slots env w (rr_new_preferred_datetime_text req) 3 = Inr res \<longrightarrow>
      (fs_reason res = Some ''preferred_time_available'' \<and> fs_slots res = new_slot # rest \<longrightarrow>
         reschedule_booking env w (Inr req) =
           (Inr \<lparr>rs_success = True, rs_booking_ref = bref, rs_old_slot = Some old,
                 rs_new_slot = Some new_slot, rs_available_slots = None,
                 rs_confirm_speakable = None, rs_error = None,
                 rs_reason = Some ''preferred_time_available''\<rparr>, w))
      \<and> (fs_reason res = Some ''preferred_time_busy'' \<longrightarrow>
         reschedule_booking env w (Inr req) =
           (Inr \<lparr>rs_success = False, rs_booking_ref = bref, rs_old_slot = Some old,
                 rs_new_slot = None, rs_available_slots = Some (fs_slots res),
                 rs_confirm_speakable = None, rs_error = None,
                 rs_reason = Some ''preferred_time_busy''\<rparr>, w)))"
proof (intro conjI impI)
  assume "\<not> rr_confirm_reschedule req"
  then show "snd (reschedule_booking env w (Inr req)) = w"
    by (rule reschedule_unconfirmed_state)
next
  assume c: "snd (reschedule_booking env w payload) \<noteq> w"
  show "\<exists>req'. payload = Inr req' \<and> rr_confirm_reschedule req'"
  proof (cases payload)
    case (Inl msg)
    with c show ?thesis by (simp add: reschedule_invalid_state)
  next
    case (Inr req')
    with c reschedule_unconfirmed_state [of req' env w] show ?thesis by auto
  qed
next
  assume a: "\<not> rr_confirm_reschedule req
        \<and> locate_booking env w (rr_booking_ref req) (rr_name req) (rr_contact req) = (Some ev, bref)
        \<and> speakable_range env (ev_start ev) (ev_end ev) = Inr old
        \<and> find_available_slots env w (rr_new_preferred_datetime_text req) 3 = Inr res"
  then have l: "locate_booking env w (rr_booking_ref req) (rr_name req) (rr_contact req) = (Some ev, bref)"
    and o: "speakable_range env (ev_start ev) (ev_end ev) = Inr old"
    and f: "find_available_slots env w (rr_new_preferred_datetime_text req) 3 = Inr res"
    and n: "\<not> rr_confirm_reschedule req"
    by simp_all
  {
    assume "fs_reason res = Some ''preferred_time_available'' \<and> fs_slots res = new_slot # rest"
    with n show "reschedule_booking env w (Inr req) =
           (Inr \<lparr>rs_success = True, rs_booking_ref = bref, rs_old_slot = Some old,
                 rs_new_slot = Some new_slot, rs_available_slots = None,
                 rs_confirm_speakable = None, rs_error = None,
                 rs_reason = Some ''preferred_time_available''\<rparr>, w)"
      unfolding reschedule_located [OF l o f] by simp
  }
  {
    assume "fs_reason res = Some ''preferred_time_busy''"
    with n show "reschedule_booking env w (Inr req) =
           (Inr \<lparr>rs_success = False, rs_booking_ref = bref, rs_old_slot = Some old,
                 rs_new_slot = None, rs_available_slots = Some (fs_slots res),
                 rs_confirm_speakable = None, rs_error = None,
                 rs_reason = Some ''preferred_time_busy''\<rparr>, w)"
      unfolding reschedule_located [OF l o f] by simp
  }
qed

lemma demo_locate:
  "locate_booking (demo_env (\<lambda>c. False)) booked_world (rr_booking_ref (demo_reschedule t c))
     (rr_name (demo_reschedule t c)) (rr_contact (demo_reschedule t c))
   = (Some demo_booking, Some ''0A1-B2C'')"
  by (simp add: locate_booking_def find_booking_by_ref_def events_with_ref_def demo_reschedule_def
        demo_env_def booked_world_def demo_booking_def)

lemma demo_old_slot:
  "speakable_range (demo_env (\<lambda>c. False)) (ev_start demo_booking) (ev_end demo_booking) = Inr ''a slot''"
  by (simp add: speakable_range_def demo_booking_def demo_env_def)

theorem reschedule_two_phase_witness:
  "reschedule_booking (demo_env (\<lambda>c. False)) booked_world (Inr (demo_reschedule ''monday 4:50pm'' False))
     = (Inr \<lparr>rs_success = True, rs_booking_ref = Some ''0A1-B2C'', rs_old_slot = Some ''a slot'',
             rs_new_slot = Some (demo_slot 17 0 17 30), rs_available_slots = None,
             rs_confirm_speakable = None, rs_error = None,
             rs_reason = Some ''preferred_time_available''\<rparr>, booked_world)
   \<and> reschedule_booking (demo_env (\<lambda>c. False)) booked_world (Inr (demo_reschedule ''monday 10am'' False))
     = (Inr \<lparr>rs_success = False, rs_booking_ref = Some ''0A1-B2C'', rs_old_slot = Some ''a slot'',
             rs_new_slot = None,
             rs_available_slots = Some [demo_slot 10 30 11 0, demo_slot 11 0 11 30, demo_slot 11 30 12 0],
             rs_confirm_speakable = None, rs_error = None,
             rs_reason = Some ''preferred_time_busy''\<rparr>, booked_world)"
proof -
  let ?E = "demo_env (\<lambda>c. False)"
  let ?free = "\<lparr>fs_slots = [demo_slot 17 0 17 30], fs_reason = Some ''preferred_time_available''\<rparr>"
  let ?busy = "\<lparr>fs_slots = [demo_slot 10 30 11 0, demo_slot 11 0 11 30, demo_slot 11 30 12 0],
                fs_reason = Some ''preferred_time_busy''\<rparr>"
  have n: "\<not> rr_confirm_reschedule (demo_reschedule t False)" for t
    by (simp add: demo_reschedule_def)
  have f1: "find_available_slots ?E booked_world
              (rr_new_preferred_datetime_text (demo_reschedule ''monday 4:50pm'' False)) 3 = Inr ?free"
    using demo_find_free by (simp add: demo_reschedule_def demo_slot_def)
  have f2: "find_available_slots ?E booked_world
              (rr_new_preferred_datetime_text (demo_reschedule ''monday 10am'' False)) 3 = Inr ?busy"
    using demo_find_busy by (simp add: demo_reschedule_def demo_slot_def)
  note t1 = conjunct2 [OF conjunct2 [OF reschedule_two_phase
      [where req = "demo_reschedule ''monday 4:50pm'' False" and env = ?E and w = booked_world
         and ev = demo_booking and bref = "Some ''0A1-B2C''" and old = "''a slot''" and res = ?free
         and new_slot = "demo_slot 17 0 17 30" and rest = "[]"]]]
  note t2 = conjunct2 [OF conjunct2 [OF reschedule_two_phase
      [where req = "demo_reschedule ''monday 10am'' False" and env = ?E and w = booked_world
         and ev = demo_booking and bref = "Some ''0A1-B2C''" and old = "''a slot''" and res = ?busy]]]
  from t1 n demo_locate demo_old_slot f1
  have 1: "reschedule_booking ?E booked_world (Inr (demo_reschedule ''monday 4:50pm'' False))
     = (Inr \<lparr>rs_success = True, rs_booking_ref = Some ''0A1-B2C'', rs_old_slot = Some ''a slot'',
             rs_new_slot = Some (demo_slot 17 0 17 30), rs_available_slots = None,
             rs_confirm_speakable = None, rs_error = None,
             rs_reason = Some ''preferred_time_available''\<rparr>, booked_world)"
    by simp
  from t2 n demo_locate demo_old_slot f2
  have 2: "reschedule_booking ?E booked_world (Inr (demo_reschedule ''monday 10am'' False))
     = (Inr \<lparr>rs_success = False, rs_booking_ref = Some ''0A1-B2C'', rs_old_slot = Some ''a slot'',
             rs_new_slot = None,
             rs_available_slots = Some [demo_slot 10 30 11 0, demo_slot 11 0 11 30, demo_slot 11 30 12 0],
             rs_confirm_speakable = None, rs_error = None,
             rs_reason = Some ''preferred_time_busy''\<rparr>, booked_world)"
    by simp
  from 1 2 show ?thesis by (rule conjI)
qed











section \<open>Error recovery in the handlers\<close>

text \<open>
  In create, reschedule and cancel the errors of the taxonomy come back as responses
  with \<open>success = False\<close>, an error code and a reason, and leave the state alone.
\<close>

lemma validation_errors_recovered:
  "create_event env w (Inl msg) = (Inr (create_failure ''validation_error'' msg), w)"
  "reschedule_booking env w (Inl msg) = (Inr (reschedule_failure ''validation_error'' msg), w)"
  "cancel_booking env w (Inl msg) = (Inr (cancel_failure ''validation_error'' msg), w)"
  by (simp_all add: create_event_def reschedule_booking_def cancel_booking_def)

lemma booking_not_found_recovered:
  "locate_booking env w (rr_booking_ref req) (rr_name req) (rr_contact req) = (None, bref) \<Longrightarrow>
     reschedule_booking env w (Inr req)
       = (Inr (reschedule_failure ''booking_not_found'' ''No booking found with provided details''), w)"
  "locate_booking env w (cq_booking_ref creq) (cq_name creq) (cq_contact creq) = (None, bref) \<Longrightarrow>
     cancel_booking env w (Inr creq)
       = (Inr (cancel_failure ''booking_not_found'' ''No booking found with provided details''), w)"
  by (simp_all add: reschedule_booking_def cancel_booking_def)

lemma no_slots_available_recovered:
  assumes "locate_booking env w (rr_booking_ref req) (rr_name req) (rr_contact req) = (Some ev, bref)"
    and "speakable_range env (ev_start ev) (ev_end ev) = Inr old"
    and "find_available_slots env w (rr_new_preferred_datetime_text req) 3 = Inr res"
    and "fs_reason res = Some ''no_slots_available''"
  shows "reschedule_booking env w (Inr req)
     = (Inr (reschedule_failure ''no_slots_available''
               ''No available slots found for the requested time period''), w)"
  unfolding reschedule_located [OF assms(1-3)] using assms(4) by simp

lemma update_failed_recovered:
  assumes "fails env w (EventsUpdate (ev_id ev))"
  shows "commit_reschedule env w req ev bref old new_slot
     = (Inr (reschedule_failure ''update_failed''
               (''Failed to update booking: '' @ exn_text env HttpError)), w)"
  using assms by (simp add: commit_reschedule_def)

lemma cancellation_failed_recovered:
  assumes "locate_booking env w (cq_booking_ref req) (cq_name req) (cq_contact req) = (Some ev, bref)"
    and "speakable_range env (ev_start ev) (ev_end ev) = Inr sp"
    and "fails env w (EventsDelete (ev_id ev))"
  shows "cancel_booking env w (Inr req)
     = (Inr (cancel_failure ''cancellation_failed''
               (''Failed to cancel booking: '' @ exn_text env HttpError)), w)"
  using assms by (simp add: cancel_booking_def)

lemma failure_responses:
  "\<not> ce_success (create_failure e y) \<and> ce_error (create_failure e y) = Some e
     \<and> ce_reason (create_failure e y) = Some y"
  "\<not> rs_success (reschedule_failure e y) \<and> rs_error (reschedule_failure e y) = Some e
     \<and> rs_reason (reschedule_failure e y) = Some y"
  "\<not> cn_success (cancel_failure e y) \<and> cn_error (cancel_failure e y) = Some e
     \<and> cn_reason (cancel_failure e y) = Some y"
  by (simp_all add: create_failure_def reschedule_failure_def cancel_failure_def)

lemma find_slots_unparseable:
  assumes "parse_text env (fr_preferred_datetime_text req) = None"
  shows "find_slots_endpoint env w (Inr req) = Inl ParserError"
  using assms by (simp add: find_slots_endpoint_def find_available_slots_def)

lemma reschedule_unparseable:
  assumes "locate_booking env w (rr_booking_ref req) (rr_name req) (rr_contact req) = (Some ev, bref)"
    and "speakable_range env (ev_start ev) (ev_end ev) = Inr old"
    and "parse_text env (rr_new_preferred_datetime_text req) = None"
  shows "reschedule_booking env w (Inr req)
     = (Inr (reschedule_failure ''invalid_datetime'' ''Could not parse new preferred datetime''), w)"
  using assms by (simp add: reschedule_booking_def)

text \<open>
  C7 fails on slot discovery: for a text the date parser rejects, the find-slots handler
  returns no response at all; the parser's exception leaves it. The reschedule handler,
  given the same text for a located booking, returns the structured failure
  \<open>invalid_datetime\<close>.
\<close>

theorem find_slots_unparseable_text_escapes:
  "parse_text (demo_env (\<lambda>c. False)) ''whenever'' = None
   \<and> find_slots_endpoint (demo_env (\<lambda>c. False)) booked_world
        (Inr \<lparr>fr_appointment_type = ''Consultation'', fr_preferred_datetime_text = ''whenever'',
              fr_limit = 3\<rparr>) = Inl ParserError
   \<and> reschedule_booking (demo_env (\<lambda>c. False)) booked_world (Inr (demo_reschedule ''whenever'' False))
       = (Inr \<lparr>rs_success = False, rs_booking_ref = None, rs_old_slot = None, rs_new_slot = None,
               rs_available_slots = None, rs_confirm_speakable = None,
               rs_error = Some ''invalid_datetime'',
               rs_reason = Some ''Could not parse new preferred datetime''\<rparr>, booked_world)"
proof -
  have p: "parse_text (demo_env (\<lambda>c. False)) ''whenever'' = None"
    by (simp add: demo_env_def demo_parse_def)
  have 1: "find_slots_endpoint (demo_env (\<lambda>c. False)) booked_world
        (Inr \<lparr>fr_appointment_type = ''Consultation'', fr_preferred_datetime_text = ''whenever'',
              fr_limit = 3\<rparr>) = Inl ParserError"
    by (rule find_slots_unparseable) (simp add: p)
  have "parse_text (demo_env (\<lambda>c. False))
          (rr_new_preferred_datetime_text (demo_reschedule ''whenever'' False)) = None"
    by (simp add: p demo_reschedule_def)
  from reschedule_unparseable [OF demo_locate demo_old_slot this]
  have 2: "reschedule_booking (demo_env (\<lambda>c. False)) booked_world (Inr (demo_reschedule ''whenever'' False))
       = (Inr \<lparr>rs_success = False, rs_booking_ref = None, rs_old_slot = None, rs_new_slot = None,
               rs_available_slots = None, rs_confirm_speakable = None,
               rs_error = Some ''invalid_datetime'',
               rs_reason = Some ''Could not parse new preferred datetime''\<rparr>, booked_world)"
    by (simp add: reschedule_failure_def)
  from p 1 2 show ?thesis by simp
qed

end
